theory Spec2Isabelle
  imports Main "HOL-Library.Multiset"
begin

section \<open>Python values of the recurrence projection\<close>

text \<open>
  The development embeds \<^verbatim>\<open>project_recurring_events\<close> of
  \<^verbatim>\<open>mcp_google/calendar.py\<close>. Exceptions are values: a computation that can raise
  returns \<open>exn + 'a\<close>, with \<open>Inl\<close> the exception.
\<close>

datatype exn = ValueError | TypeError | OverflowError | IndexError | OtherException

text \<open>
  A \<^verbatim>\<open>datetime\<close> is its wall-clock reading, in microseconds since
  0001-01-01T00:00:00, and its \<^verbatim>\<open>tzinfo\<close>: \<open>None\<close> for a naive value, the UTC
  offset in microseconds for an aware one (fixed-offset zones, as \<^verbatim>\<open>timezone.utc\<close>,
  \<^verbatim>\<open>tzutc\<close> and \<^verbatim>\<open>tzoffset\<close> are). A \<^verbatim>\<open>timedelta\<close> is a number of
  microseconds, a \<^verbatim>\<open>date\<close> a number of days since 0001-01-01.
\<close>

type_synonym timedelta = int
type_synonym date = int

record datetime =
  wall :: int
  tzinfo :: "int option"

definition US_PER_DAY :: int where
  "US_PER_DAY = 86400000000"

definition US_PER_HOUR :: int where
  "US_PER_HOUR = 3600000000"

text \<open>\<^verbatim>\<open>datetime.max\<close> is 9999-12-31T23:59:59.999999, the last microsecond of day 3652058.\<close>

definition MAX_WALL :: int where
  "MAX_WALL = 3652059 * 86400000000 - 1"

text \<open>The instant on the UTC time line that an aware value denotes; the reading itself for a naive one.\<close>

definition instant :: "datetime \<Rightarrow> int" where
  "instant d = (case tzinfo d of None \<Rightarrow> wall d | Some off \<Rightarrow> wall d - off)"

definition aware :: "datetime \<Rightarrow> bool" where
  "aware d = (tzinfo d \<noteq> None)"

text \<open>
  \<^verbatim>\<open>a == b\<close>: a naive and an aware value are never equal, and no exception is raised.
\<close>

definition dt_eq :: "datetime \<Rightarrow> datetime \<Rightarrow> bool" where
  "dt_eq a b = (aware a = aware b \<and> instant a = instant b)"

text \<open>
  \<^verbatim>\<open>a <= b\<close>, and likewise every order comparison: comparing a naive with an aware
  value raises \<^verbatim>\<open>TypeError\<close>.
\<close>

definition dt_le :: "datetime \<Rightarrow> datetime \<Rightarrow> exn + bool" where
  "dt_le a b = (if aware a = aware b then Inr (instant a \<le> instant b) else Inl TypeError)"

text \<open>\<^verbatim>\<open>a - b\<close> on two datetimes: a \<^verbatim>\<open>timedelta\<close>, or \<^verbatim>\<open>TypeError\<close> when one is naive and the other aware.\<close>

definition dt_sub :: "datetime \<Rightarrow> datetime \<Rightarrow> exn + timedelta" where
  "dt_sub a b = (if aware a = aware b then Inr (instant a - instant b) else Inl TypeError)"

text \<open>
  \<^verbatim>\<open>d + td\<close>: the reading moves, the \<^verbatim>\<open>tzinfo\<close> stays; a result outside
  \<^verbatim>\<open>datetime.min .. datetime.max\<close> raises \<^verbatim>\<open>OverflowError\<close>.
\<close>

definition dt_add :: "datetime \<Rightarrow> timedelta \<Rightarrow> exn + datetime" where
  "dt_add d td =
     (if 0 \<le> wall d + td \<and> wall d + td \<le> MAX_WALL then Inr (d\<lparr>wall := wall d + td\<rparr>)
      else Inl OverflowError)"

text \<open>\<^verbatim>\<open>d.date()\<close> and \<^verbatim>\<open>datetime.combine(day, datetime.min.time())\<close>.\<close>

definition date_of :: "datetime \<Rightarrow> date" where
  "date_of d = wall d div US_PER_DAY"

definition combine_midnight :: "date \<Rightarrow> datetime" where
  "combine_midnight day = \<lparr>wall = day * US_PER_DAY, tzinfo = None\<rparr>"

text \<open>\<^verbatim>\<open>d.replace(tzinfo=tz)\<close>.\<close>

definition replace_tzinfo :: "datetime \<Rightarrow> int option \<Rightarrow> datetime" where
  "replace_tzinfo d tz = d\<lparr>tzinfo := tz\<rparr>"

subsection \<open>Strings\<close>

definition startswith :: "string \<Rightarrow> string \<Rightarrow> bool" where
  "startswith s p = (take (length p) s = p)"

text \<open>\<^verbatim>\<open>s.split(c)\<close>: every separator cuts; the result is never empty.\<close>

fun split :: "char \<Rightarrow> string \<Rightarrow> string list" where
  "split c [] = [[]]"
| "split c (x # xs) =
     (if x = c then [] # split c xs
      else (case split c xs of [] \<Rightarrow> [[x]] | w # ws \<Rightarrow> (x # w) # ws))"

text \<open>\<^verbatim>\<open>s.split(c, 1)\<close>: only the first separator cuts.\<close>

definition split1 :: "char \<Rightarrow> string \<Rightarrow> string list" where
  "split1 c s =
     (if c \<in> set s then [takeWhile (\<lambda>x. x \<noteq> c) s, tl (dropWhile (\<lambda>x. x \<noteq> c) s)] else [s])"

text \<open>\<^verbatim>\<open>s.upper()\<close> on the ASCII letters.\<close>

definition upper_char :: "char \<Rightarrow> char" where
  "upper_char c =
     (let n = (of_char c :: nat) in if 97 \<le> n \<and> n \<le> 122 then char_of (n - 32) else c)"

definition upper :: "string \<Rightarrow> string" where
  "upper s = map upper_char s"

section \<open>Calendar records\<close>

text \<open>
  \<^verbatim>\<open>EventDateTime\<close> and \<^verbatim>\<open>GoogleCalendarEvent\<close> of
  \<^verbatim>\<open>calendar_models.py\<close>, with the fields the projection reads, at their declared
  types (\<^verbatim>\<open>Optional[datetime.date]\<close>, \<^verbatim>\<open>Optional[datetime.datetime]\<close>,
  \<^verbatim>\<open>Optional[str]\<close>, \<^verbatim>\<open>Optional[List[str]]\<close>). The fields \<^verbatim>\<open>id\<close> and
  \<^verbatim>\<open>end\<close> are \<open>id'\<close> and \<open>end'\<close> here.
\<close>

record EventDateTime =
  date :: "date option"
  dateTime :: "datetime option"
  timeZone :: "string option"

record GoogleCalendarEvent =
  id' :: "string option"
  summary :: "string option"
  start :: "EventDateTime option"
  end' :: "EventDateTime option"
  recurrence :: "string list option"

record ProjectedEventOccurrence =
  original_event_id :: "string option"
  original_summary :: string
  occurrence_start :: datetime
  occurrence_end :: datetime

section \<open>The dateutil library as a parameter\<close>

text \<open>
  \<^verbatim>\<open>dateutil.parser\<close> and \<^verbatim>\<open>dateutil.rrule\<close> are not part of the repository.
  Their entry points are the fields of a record that every function below takes as its first
  argument. The parsers receive whatever Python value the code hands them: a string of an
  EXDATE line, or the content of a \<^verbatim>\<open>dateTime\<close> or \<^verbatim>\<open>date\<close> field.

  \<open>'rs\<close> is what \<^verbatim>\<open>rrulestr(..., forceset=True)\<close> returns and \<open>'r\<close> what indexing
  it with \<^verbatim>\<open>[0]\<close> returns. An \<^verbatim>\<open>rruleset\<close> built by the code is the list of the
  values given to \<^verbatim>\<open>ruleset.rrule\<close> and the list of the datetimes given to
  \<^verbatim>\<open>ruleset.exdate\<close>, in call order; \<^verbatim>\<open>ruleset.between(a, b, inc=True)\<close> is the
  field \<open>between\<close>.
\<close>

datatype pyval = Str string | DateTimeVal datetime | DateVal date

record 'r rruleset =
  rrules :: "'r list"
  exdates :: "datetime list"

record ('rs, 'r) dateutil =
  isoparse :: "pyval \<Rightarrow> exn + datetime"
  parse :: "pyval \<Rightarrow> exn + datetime"
  rrulestr :: "string \<Rightarrow> datetime \<Rightarrow> exn + 'rs"
  getitem0 :: "'rs \<Rightarrow> exn + 'r"
  between :: "'r rruleset \<Rightarrow> datetime \<Rightarrow> datetime \<Rightarrow> exn + datetime list"

section \<open>project_recurring_events\<close>

subsection \<open>Start and duration of a master event\<close>

text \<open>
  Lines 578 to 616. The result is \<open>Inr (Some (dtstart_obj, event_duration))\<close>, or
  \<open>Inr None\<close> where the loop body ends with \<^verbatim>\<open>continue\<close> (a \<^verbatim>\<open>ValueError\<close>
  of a parser is caught there), or \<open>Inl e\<close> for an exception that the
  \<^verbatim>\<open>except ValueError\<close> clauses do not catch and that leaves the function. The check
  of lines 614 to 616 follows a branch that has set both variables, and a datetime is never
  false, so it never skips an event.
\<close>

definition missing_start :: "GoogleCalendarEvent \<Rightarrow> bool" where
  "missing_start event =
     (case start event of None \<Rightarrow> True
      | Some st \<Rightarrow> dateTime st = None \<and> date st = None)"

definition caught_ValueError :: "exn \<Rightarrow> exn + 'a option" where
  "caught_ValueError e = (if e = ValueError then Inr None else Inl e)"

text \<open>\<^verbatim>\<open>event.end and event.end.dateTime\<close>, \<^verbatim>\<open>event.end and event.end.date\<close>.\<close>

definition event_end_dateTime :: "GoogleCalendarEvent \<Rightarrow> datetime option" where
  "event_end_dateTime event = (case end' event of None \<Rightarrow> None | Some en \<Rightarrow> dateTime en)"

definition event_end_date :: "GoogleCalendarEvent \<Rightarrow> date option" where
  "event_end_date event = (case end' event of None \<Rightarrow> None | Some en \<Rightarrow> date en)"

definition timed_anchor ::
  "('rs, 'r) dateutil \<Rightarrow> GoogleCalendarEvent \<Rightarrow> datetime \<Rightarrow> exn + (datetime \<times> timedelta) option" where
  "timed_anchor lib event start_dateTime =
     (case isoparse lib (DateTimeVal start_dateTime) of
        Inl e \<Rightarrow> caught_ValueError e
      | Inr dtstart_obj \<Rightarrow>
          (case event_end_dateTime event of
             Some end_dateTime \<Rightarrow>
               (case isoparse lib (DateTimeVal end_dateTime) of
                  Inl e \<Rightarrow> caught_ValueError e
                | Inr dtend_obj \<Rightarrow>
                    (case dt_sub dtend_obj dtstart_obj of
                       Inl e \<Rightarrow> caught_ValueError e
                     | Inr event_duration \<Rightarrow> Inr (Some (dtstart_obj, event_duration))))
           | None \<Rightarrow> Inr (Some (dtstart_obj, US_PER_HOUR))))"

definition all_day_anchor ::
  "('rs, 'r) dateutil \<Rightarrow> datetime \<Rightarrow> GoogleCalendarEvent \<Rightarrow> date \<Rightarrow> exn + (datetime \<times> timedelta) option" where
  "all_day_anchor lib time_min event start_day =
     (case parse lib (DateVal start_day) of
        Inl e \<Rightarrow> caught_ValueError e
      | Inr parsed_start \<Rightarrow>
          (let start_date = date_of parsed_start;
               naive_start = combine_midnight start_date;
               dtstart_obj = (if tzinfo time_min \<noteq> None
                              then replace_tzinfo naive_start (tzinfo time_min)
                              else naive_start)
           in (case event_end_date event of
                 Some end_day \<Rightarrow>
                   (case parse lib (DateVal end_day) of
                      Inl e \<Rightarrow> caught_ValueError e
                    | Inr parsed_end \<Rightarrow>
                        Inr (Some (dtstart_obj, (date_of parsed_end - start_date) * US_PER_DAY)))
               | None \<Rightarrow> Inr (Some (dtstart_obj, US_PER_DAY)))))"

definition derive_anchor ::
  "('rs, 'r) dateutil \<Rightarrow> datetime \<Rightarrow> GoogleCalendarEvent \<Rightarrow> exn + (datetime \<times> timedelta) option" where
  "derive_anchor lib time_min event =
     (case start event of
        None \<Rightarrow> Inr None
      | Some st \<Rightarrow>
          (case dateTime st of
             Some start_dateTime \<Rightarrow> timed_anchor lib event start_dateTime
           | None \<Rightarrow>
               (case date st of
                  Some start_day \<Rightarrow> all_day_anchor lib time_min event start_day
                | None \<Rightarrow> Inr None)))"

subsection \<open>The RRULE and EXDATE lines\<close>

text \<open>
  Lines 619 to 626: the loop over \<^verbatim>\<open>event.recurrence\<close>, with the two variables it
  assigns as its state.
\<close>

fun scan_recurrence ::
  "string list \<Rightarrow> string option \<times> string list \<Rightarrow> string option \<times> string list" where
  "scan_recurrence [] st = st"
| "scan_recurrence (rule_str # rest) (rrule_str, exdate_strs) =
     (if startswith rule_str ''RRULE:'' then scan_recurrence rest (Some rule_str, exdate_strs)
      else if startswith rule_str ''EXDATE'' then
        scan_recurrence rest (rrule_str, exdate_strs @ [rule_str])
      else scan_recurrence rest (rrule_str, exdate_strs))"

text \<open>Lines 647 to 650: the parameters of one EXDATE line, a later key replacing an earlier one.\<close>

fun exdate_params :: "string list \<Rightarrow> (string \<rightharpoonup> string) \<Rightarrow> (string \<rightharpoonup> string)" where
  "exdate_params [] params = params"
| "exdate_params (part # rest) params =
     (if CHR ''='' \<in> set part then
        (let kv = split1 (CHR ''='') part
         in exdate_params rest (params(upper (kv ! 0) \<mapsto> kv ! 1)))
      else exdate_params rest params)"

text \<open>Lines 656 to 662: one value of an EXDATE line.\<close>

definition exdate_value ::
  "('rs, 'r) dateutil \<Rightarrow> datetime \<Rightarrow> bool \<Rightarrow> string \<Rightarrow> exn + datetime" where
  "exdate_value lib dtstart_obj is_all_day date_str =
     (if is_all_day then
        (case parse lib (Str date_str) of
           Inl e \<Rightarrow> Inl e
         | Inr parsed \<Rightarrow>
             (let ex_dt = combine_midnight (date_of parsed)
              in Inr (if tzinfo dtstart_obj \<noteq> None
                      then replace_tzinfo ex_dt (tzinfo dtstart_obj) else ex_dt)))
      else isoparse lib (Str date_str))"

text \<open>
  Lines 654 to 666: the values of one line. A \<^verbatim>\<open>ValueError\<close> drops the value; any
  other exception leaves the loop for the handler of line 691.
\<close>

fun add_exdates ::
  "('rs, 'r) dateutil \<Rightarrow> datetime \<Rightarrow> bool \<Rightarrow> string list \<Rightarrow> 'r rruleset \<Rightarrow> exn + 'r rruleset" where
  "add_exdates lib dtstart_obj is_all_day [] ruleset = Inr ruleset"
| "add_exdates lib dtstart_obj is_all_day (date_str # rest) ruleset =
     (case exdate_value lib dtstart_obj is_all_day date_str of
        Inr ex_dt \<Rightarrow>
          add_exdates lib dtstart_obj is_all_day rest
            (ruleset\<lparr>exdates := exdates ruleset @ [ex_dt]\<rparr>)
      | Inl e \<Rightarrow>
          (if e = ValueError then add_exdates lib dtstart_obj is_all_day rest ruleset
           else Inl e))"

definition exdate_is_all_day :: "string \<Rightarrow> bool" where
  "exdate_is_all_day param_str =
     (let params = (if CHR '';'' \<in> set param_str
                    then exdate_params (tl (split (CHR '';'') param_str)) Map.empty
                    else Map.empty)
      in params ''VALUE'' = Some ''DATE'')"

text \<open>Lines 639 to 666: the loop over the EXDATE lines.\<close>

fun add_exdate_lines ::
  "('rs, 'r) dateutil \<Rightarrow> datetime \<Rightarrow> string list \<Rightarrow> 'r rruleset \<Rightarrow> exn + 'r rruleset" where
  "add_exdate_lines lib dtstart_obj [] ruleset = Inr ruleset"
| "add_exdate_lines lib dtstart_obj (exdate_str # rest) ruleset =
     (let parts = split1 (CHR '':'') exdate_str
      in if length parts = 2 then
           (case add_exdates lib dtstart_obj (exdate_is_all_day (parts ! 0))
                   (split (CHR '','') (parts ! 1)) ruleset of
              Inl e \<Rightarrow> Inl e
            | Inr ruleset' \<Rightarrow> add_exdate_lines lib dtstart_obj rest ruleset')
         else add_exdate_lines lib dtstart_obj rest ruleset)"

subsection \<open>Occurrences of one master event\<close>

text \<open>Lines 634 to 666: the rule set handed to \<^verbatim>\<open>between\<close>.\<close>

definition build_ruleset ::
  "('rs, 'r) dateutil \<Rightarrow> datetime \<Rightarrow> string \<Rightarrow> string list \<Rightarrow> exn + 'r rruleset" where
  "build_ruleset lib dtstart_obj rrule_str exdate_strs =
     (case rrulestr lib rrule_str dtstart_obj of
        Inl e \<Rightarrow> Inl e
      | Inr main_rule \<Rightarrow>
          (case getitem0 lib main_rule of
             Inl e \<Rightarrow> Inl e
           | Inr first \<Rightarrow>
               add_exdate_lines lib dtstart_obj exdate_strs \<lparr>rrules = [first], exdates = []\<rparr>))"

text \<open>Lines 634 to 669.\<close>

definition window_occurrences ::
  "('rs, 'r) dateutil \<Rightarrow> datetime \<Rightarrow> datetime \<Rightarrow> datetime \<Rightarrow> string \<Rightarrow> string list
     \<Rightarrow> exn + datetime list" where
  "window_occurrences lib time_min time_max dtstart_obj rrule_str exdate_strs =
     (case build_ruleset lib dtstart_obj rrule_str exdate_strs of
        Inl e \<Rightarrow> Inl e
      | Inr ruleset \<Rightarrow> between lib ruleset time_min time_max)"

text \<open>Lines 675 to 678.\<close>

definition reconcile :: "datetime \<Rightarrow> datetime \<Rightarrow> datetime" where
  "reconcile dtstart_obj occ_start_dt =
     (if tzinfo dtstart_obj \<noteq> None \<and> tzinfo occ_start_dt = None
      then replace_tzinfo occ_start_dt (tzinfo dtstart_obj)
      else if tzinfo dtstart_obj = None \<and> tzinfo occ_start_dt \<noteq> None
      then replace_tzinfo occ_start_dt None
      else occ_start_dt)"

definition summary_or_default :: "string option \<Rightarrow> string" where
  "summary_or_default s = (case s of None \<Rightarrow> ''No Summary'' | Some t \<Rightarrow> if t = [] then ''No Summary'' else t)"

text \<open>
  Lines 673 to 689: the occurrences appended for one event. An \<^verbatim>\<open>OverflowError\<close> of
  the addition ends the loop through the handler of line 691, and what was appended before
  it stays in the list.
\<close>

fun emit ::
  "GoogleCalendarEvent \<Rightarrow> datetime \<Rightarrow> timedelta \<Rightarrow> datetime list \<Rightarrow> ProjectedEventOccurrence list" where
  "emit event dtstart_obj event_duration [] = []"
| "emit event dtstart_obj event_duration (occ # rest) =
     (let occ_start_dt = reconcile dtstart_obj occ
      in case dt_add occ_start_dt event_duration of
           Inl e \<Rightarrow> []
         | Inr occ_end_dt \<Rightarrow>
             \<lparr>original_event_id = id' event,
              original_summary = summary_or_default (summary event),
              occurrence_start = occ_start_dt,
              occurrence_end = occ_end_dt\<rparr>
             # emit event dtstart_obj event_duration rest)"

text \<open>
  Lines 575 to 693, one turn of the loop over the items: the occurrences the event adds to
  \<^verbatim>\<open>projected_occurrences\<close>, or the exception that leaves the function.
\<close>

definition process_event ::
  "('rs, 'r) dateutil \<Rightarrow> datetime \<Rightarrow> datetime \<Rightarrow> GoogleCalendarEvent
     \<Rightarrow> exn + ProjectedEventOccurrence list" where
  "process_event lib time_min time_max event =
     (case recurrence event of
        None \<Rightarrow> Inr []
      | Some lines \<Rightarrow>
          if lines = [] then Inr []
          else if missing_start event then Inr []
          else
            (case derive_anchor lib time_min event of
               Inl e \<Rightarrow> Inl e
             | Inr None \<Rightarrow> Inr []
             | Inr (Some (dtstart_obj, event_duration)) \<Rightarrow>
                 (case scan_recurrence lines (None, []) of
                    (None, exdate_strs) \<Rightarrow> Inr []
                  | (Some rrule_str, exdate_strs) \<Rightarrow>
                      if rrule_str = [] then Inr []
                      else
                        (case window_occurrences lib time_min time_max dtstart_obj
                                rrule_str exdate_strs of
                           Inl e \<Rightarrow> Inr []
                         | Inr occurrences \<Rightarrow>
                             Inr (emit event dtstart_obj event_duration occurrences)))))"

subsection \<open>The loop over the items and the final sort\<close>

fun project_loop ::
  "('rs, 'r) dateutil \<Rightarrow> datetime \<Rightarrow> datetime \<Rightarrow> GoogleCalendarEvent list
     \<Rightarrow> ProjectedEventOccurrence list \<Rightarrow> exn + ProjectedEventOccurrence list" where
  "project_loop lib time_min time_max [] projected_occurrences = Inr projected_occurrences"
| "project_loop lib time_min time_max (event # rest) projected_occurrences =
     (case process_event lib time_min time_max event of
        Inl e \<Rightarrow> Inl e
      | Inr occs \<Rightarrow> project_loop lib time_min time_max rest (projected_occurrences @ occs))"

text \<open>
  \<^verbatim>\<open>projected_occurrences.sort(key=lambda x: x.occurrence_start)\<close>: a stable sort that
  compares the keys with \<^verbatim>\<open><\<close>, so it raises \<^verbatim>\<open>TypeError\<close> when the list holds
  a naive and an aware start.
\<close>

definition sort_by_start ::
  "ProjectedEventOccurrence list \<Rightarrow> exn + ProjectedEventOccurrence list" where
  "sort_by_start occs =
     (if list_all (\<lambda>x. aware (occurrence_start x) = aware (occurrence_start (hd occs))) occs
      then Inr (sort_key (\<lambda>x. instant (occurrence_start x)) occs)
      else Inl TypeError)"

text \<open>
  The function. Its argument \<open>master_events_response\<close> is what \<^verbatim>\<open>find_events\<close>
  returned: \<open>None\<close>, or the items of the response.
\<close>

definition project_recurring_events ::
  "('rs, 'r) dateutil \<Rightarrow> datetime \<Rightarrow> datetime \<Rightarrow> GoogleCalendarEvent list option
     \<Rightarrow> exn + ProjectedEventOccurrence list" where
  "project_recurring_events lib time_min time_max master_events_response =
     (case master_events_response of
        None \<Rightarrow> Inr []
      | Some items \<Rightarrow>
          if items = [] then Inr []
          else
            (case project_loop lib time_min time_max items [] of
               Inl e \<Rightarrow> Inl e
             | Inr projected_occurrences \<Rightarrow> sort_by_start projected_occurrences))"

section \<open>Notions the properties are stated with\<close>

definition is_rrule_line :: "string \<Rightarrow> bool" where
  "is_rrule_line s = startswith s ''RRULE:''"

definition is_exdate_line :: "string \<Rightarrow> bool" where
  "is_exdate_line s = startswith s ''EXDATE''"


text \<open>
  The event passes the checks of lines 575 and 578: it has recurrence lines and a start, so
  its turn of the loop goes on to derive the anchor.
\<close>

definition reaches_anchor :: "GoogleCalendarEvent \<Rightarrow> bool" where
  "reaches_anchor event =
     ((case recurrence event of None \<Rightarrow> False | Some lines \<Rightarrow> lines \<noteq> [])
      \<and> \<not> missing_start event)"


subsection \<open>What dateutil does with the values the code hands it\<close>

text \<open>
  \<^verbatim>\<open>isoparse\<close> and \<^verbatim>\<open>parse\<close> read a string (or bytes, or a stream). The fields
  \<^verbatim>\<open>dateTime\<close> and \<^verbatim>\<open>date\<close> of an \<^verbatim>\<open>EventDateTime\<close> are declared
  \<^verbatim>\<open>datetime.datetime\<close> and \<^verbatim>\<open>datetime.date\<close>, and \<^verbatim>\<open>find_events\<close>
  builds its response with \<^verbatim>\<open>EventsResponse(**events_result)\<close>, so what lines 588, 590,
  600 and 606 hand to the parsers is a datetime or a date object: on these the parsers raise
  \<^verbatim>\<open>TypeError\<close>.
\<close>

definition rejects_non_strings :: "('rs, 'r) dateutil \<Rightarrow> bool" where
  "rejects_non_strings lib =
     ((\<forall>d. isoparse lib (DateTimeVal d) = Inl TypeError)
      \<and> (\<forall>day. parse lib (DateVal day) = Inl TypeError))"


section \<open>A stand-in library and sample events\<close>

text \<open>
  A small library to run the projection on. Of strings it reads daily rules with a one-digit
  count, two spellings of one instant and one date. A datetime or date object it rejects with
  \<^verbatim>\<open>TypeError\<close>, as dateutil does. A rule set is the list of its occurrences, its first
  item is the first of them, and \<^verbatim>\<open>between\<close> raises \<^verbatim>\<open>TypeError\<close> on a rule set
  whose rule list holds such a datetime.
\<close>

definition jan_2024 :: "int \<Rightarrow> int \<Rightarrow> int \<Rightarrow> int" where
  "jan_2024 day hour minute =
     (738885 + (day - 1)) * US_PER_DAY + hour * US_PER_HOUR + minute * 60000000"

definition utc :: "int \<Rightarrow> datetime" where
  "utc w = \<lparr>wall = w, tzinfo = Some 0\<rparr>"

definition naive :: "int \<Rightarrow> datetime" where
  "naive w = \<lparr>wall = w, tzinfo = None\<rparr>"

definition stub_isoparse :: "pyval \<Rightarrow> exn + datetime" where
  "stub_isoparse v =
     (case v of
        DateTimeVal d \<Rightarrow> Inl TypeError
      | DateVal day \<Rightarrow> Inl TypeError
      | Str s \<Rightarrow>
          if s = ''20240103T090000Z'' then Inr (utc (jan_2024 3 9 0))
          else if s = ''20240103T090000'' then Inr (naive (jan_2024 3 9 0))
          else Inl ValueError)"

definition stub_parse :: "pyval \<Rightarrow> exn + datetime" where
  "stub_parse v =
     (case v of
        DateTimeVal d \<Rightarrow> Inl TypeError
      | DateVal day \<Rightarrow> Inl TypeError
      | Str s \<Rightarrow>
          if s = ''20240103'' then Inr (naive (jan_2024 3 0 0)) else Inl ValueError)"

definition daily :: "datetime \<Rightarrow> nat \<Rightarrow> datetime list" where
  "daily d n = map (\<lambda>k. d\<lparr>wall := wall d + int k * US_PER_DAY\<rparr>) [0..<n]"

definition stub_rrulestr :: "string \<Rightarrow> datetime \<Rightarrow> exn + datetime list" where
  "stub_rrulestr s d =
     (if length s = 24 \<and> take 23 s = ''RRULE:FREQ=DAILY;COUNT=''
         \<and> 48 \<le> (of_char (s ! 23) :: nat) \<and> (of_char (s ! 23) :: nat) \<le> 57
      then Inr (daily d (of_char (s ! 23) - 48))
      else Inl ValueError)"

definition stub_getitem0 :: "datetime list \<Rightarrow> exn + datetime" where
  "stub_getitem0 rs = (case rs of [] \<Rightarrow> Inl IndexError | d # _ \<Rightarrow> Inr d)"

definition stub_between ::
  "datetime rruleset \<Rightarrow> datetime \<Rightarrow> datetime \<Rightarrow> exn + datetime list" where
  "stub_between ruleset a b = (if rrules ruleset = [] then Inr [] else Inl TypeError)"

definition stub_dateutil :: "(datetime list, datetime) dateutil" where
  "stub_dateutil =
     \<lparr>isoparse = stub_isoparse, parse = stub_parse, rrulestr = stub_rrulestr,
      getitem0 = stub_getitem0, between = stub_between\<rparr>"

definition timed_event ::
  "string \<Rightarrow> string option \<Rightarrow> datetime \<Rightarrow> datetime option \<Rightarrow> string list \<Rightarrow> GoogleCalendarEvent" where
  "timed_event i s st en lines =
     \<lparr>id' = Some i, summary = s,
      start = Some \<lparr>date = None, dateTime = Some st, timeZone = None\<rparr>,
      end' = (case en of None \<Rightarrow> None
              | Some e \<Rightarrow> Some \<lparr>date = None, dateTime = Some e, timeZone = None\<rparr>),
      recurrence = Some lines\<rparr>"

definition all_day_event ::
  "string \<Rightarrow> string option \<Rightarrow> date \<Rightarrow> date option \<Rightarrow> string list \<Rightarrow> GoogleCalendarEvent" where
  "all_day_event i s st en lines =
     \<lparr>id' = Some i, summary = s,
      start = Some \<lparr>date = Some st, dateTime = None, timeZone = None\<rparr>,
      end' = (case en of None \<Rightarrow> None
              | Some e \<Rightarrow> Some \<lparr>date = Some e, dateTime = None, timeZone = None\<rparr>),
      recurrence = Some lines\<rparr>"

text \<open>The window of the examples: 2024-01-01T00:00Z to 2024-01-10T00:00Z.\<close>

definition win_min :: datetime where
  "win_min = utc (jan_2024 1 0 0)"

definition win_max :: datetime where
  "win_max = utc (jan_2024 10 0 0)"

text \<open>
  The events of the specification's scenarios, as \<^verbatim>\<open>find_events\<close> delivers them. A
  briefing at 09:00Z for thirty minutes, daily from 1 January 2024, five times (scenario A);
  a stand-up like it with 3 January excluded (scenario B); a review with the same start, no
  end and no summary, twice (scenario D); an event without start (scenario E); an all-day
  holiday from 1 January, four times, with a date exclusion; an event with two RRULE lines;
  and one whose end lies an hour before its start.
\<close>

definition briefing :: GoogleCalendarEvent where
  "briefing =
     timed_event ''briefing'' (Some ''Briefing'') (utc (jan_2024 1 9 0))
       (Some (utc (jan_2024 1 9 30))) [''RRULE:FREQ=DAILY;COUNT=5'']"

definition standup :: GoogleCalendarEvent where
  "standup =
     timed_event ''standup'' (Some ''Standup'') (utc (jan_2024 1 9 0)) (Some (utc (jan_2024 1 9 30)))
       [''RRULE:FREQ=DAILY;COUNT=5'', ''EXDATE:20240103T090000Z'']"

definition review :: GoogleCalendarEvent where
  "review =
     timed_event ''review'' None (utc (jan_2024 1 9 0)) None [''RRULE:FREQ=DAILY;COUNT=2'']"

definition startless :: GoogleCalendarEvent where
  "startless =
     \<lparr>id' = Some ''startless'', summary = Some ''Lost'', start = None, end' = None,
      recurrence = Some [''RRULE:FREQ=DAILY;COUNT=5'']\<rparr>"

definition holiday :: GoogleCalendarEvent where
  "holiday =
     all_day_event ''holiday'' (Some ''Holiday'') 738885 None
       [''RRULE:FREQ=DAILY;COUNT=4'', ''EXDATE;VALUE=DATE:20240103'']"

definition two_rules :: GoogleCalendarEvent where
  "two_rules =
     timed_event ''two'' (Some ''Two rules'') (utc (jan_2024 1 9 0)) (Some (utc (jan_2024 1 9 30)))
       [''RRULE:FREQ=DAILY;COUNT=2'', ''RRULE:FREQ=DAILY;COUNT=3'']"

definition backwards :: GoogleCalendarEvent where
  "backwards =
     timed_event ''backwards'' (Some ''Backwards'') (utc (jan_2024 1 10 0))
       (Some (utc (jan_2024 1 9 0))) [''RRULE:FREQ=DAILY;COUNT=1'']"





section \<open>Lemmas about the loops\<close>

subsection \<open>The scan of the recurrence lines\<close>

lemma exdate_not_rrule: "is_exdate_line s \<Longrightarrow> \<not> is_rrule_line s"
  by (cases s) (auto simp: is_exdate_line_def is_rrule_line_def startswith_def)

lemma scan_recurrence_eq:
  "scan_recurrence lines (r0, e0) =
     (if filter is_rrule_line lines = [] then r0 else Some (last (filter is_rrule_line lines)),
      e0 @ filter is_exdate_line lines)"
proof (induction lines arbitrary: r0 e0)
  case Nil
  show ?case by simp
next
  case (Cons s lines)
  show ?case
  proof (cases "is_rrule_line s")
    case True
    then have "\<not> is_exdate_line s" using exdate_not_rrule by blast
    with True Cons show ?thesis
      by (simp add: is_rrule_line_def[symmetric] is_exdate_line_def[symmetric])
  next
    case False
    with Cons show ?thesis
      by (simp add: is_rrule_line_def[symmetric] is_exdate_line_def[symmetric])
  qed
qed

lemma last_filter: "filter P xs \<noteq> [] \<Longrightarrow> P (last (filter P xs))"
proof -
  assume "filter P xs \<noteq> []"
  then have "last (filter P xs) \<in> set (filter P xs)" by (rule last_in_set)
  then show ?thesis by simp
qed

lemma emit_recurrence:
  "emit (event\<lparr>recurrence := r\<rparr>) ds dur ws = emit event ds dur ws"
  by (induction ws) (auto simp: Let_def split: sum.splits)

lemma event_end_dateTime_recurrence:
  "event_end_dateTime (event\<lparr>recurrence := r\<rparr>) = event_end_dateTime event"
  by (simp add: event_end_dateTime_def)

lemma event_end_date_recurrence:
  "event_end_date (event\<lparr>recurrence := r\<rparr>) = event_end_date event"
  by (simp add: event_end_date_def)

lemma timed_anchor_recurrence:
  "timed_anchor lib (event\<lparr>recurrence := r\<rparr>) sd = timed_anchor lib event sd"
  by (simp only: timed_anchor_def event_end_dateTime_recurrence)

lemma all_day_anchor_recurrence:
  "all_day_anchor lib a (event\<lparr>recurrence := r\<rparr>) sd = all_day_anchor lib a event sd"
  by (simp only: all_day_anchor_def event_end_date_recurrence)

lemma derive_anchor_recurrence:
  "derive_anchor lib a (event\<lparr>recurrence := r\<rparr>) = derive_anchor lib a event"
  by (simp add: derive_anchor_def timed_anchor_recurrence all_day_anchor_recurrence
      cong: option.case_cong)

lemma missing_start_recurrence:
  "missing_start (event\<lparr>recurrence := r\<rparr>) = missing_start event"
  by (simp add: missing_start_def)

lemma process_event_cong:
  assumes "recurrence e1 = Some l1" and "recurrence e2 = Some l2"
    and "l1 \<noteq> []" and "l2 \<noteq> []"
    and "scan_recurrence l1 (None, []) = sc" and "scan_recurrence l2 (None, []) = sc"
    and "missing_start e2 = missing_start e1"
    and "derive_anchor lib a e2 = derive_anchor lib a e1"
    and "\<And>ds dur ws. emit e2 ds dur ws = emit e1 ds dur ws"
  shows "process_event lib a b e1 = process_event lib a b e2"
  unfolding process_event_def by (simp only: assms option.case if_False)

subsection \<open>Where the parsers reject what they are given\<close>

lemma anchor_raises:
  assumes "rejects_non_strings lib"
  shows "derive_anchor lib time_min event =
           (if missing_start event then Inr None else Inl TypeError)"
proof (cases "start event")
  case None
  then show ?thesis by (simp add: derive_anchor_def missing_start_def)
next
  case (Some st)
  show ?thesis
  proof (cases "dateTime st")
    case (Some sd)
    with assms \<open>start event = Some st\<close> show ?thesis
      by (simp add: derive_anchor_def missing_start_def timed_anchor_def
          caught_ValueError_def rejects_non_strings_def)
  next
    case None
    show ?thesis
    proof (cases "date st")
      case None
      with \<open>dateTime st = None\<close> \<open>start event = Some st\<close> show ?thesis
        by (simp add: derive_anchor_def missing_start_def)
    next
      case (Some day)
      with assms \<open>dateTime st = None\<close> \<open>start event = Some st\<close> show ?thesis
        by (simp add: derive_anchor_def missing_start_def all_day_anchor_def
            caught_ValueError_def rejects_non_strings_def)
    qed
  qed
qed

lemma missing_start_skipped:
  "missing_start event \<Longrightarrow> process_event lib time_min time_max event = Inr []"
  by (simp add: process_event_def split: option.splits)

lemma event_raises:
  assumes "rejects_non_strings lib"
  shows "process_event lib time_min time_max event =
           (if reaches_anchor event then Inl TypeError else Inr [])"
proof (cases "recurrence event")
  case None
  then show ?thesis by (simp add: process_event_def reaches_anchor_def)
next
  case (Some lines)
  then show ?thesis
    by (simp add: process_event_def reaches_anchor_def anchor_raises[OF assms])
qed

lemma loop_raises:
  assumes "rejects_non_strings lib"
  shows "project_loop lib time_min time_max items acc =
           (if list_ex reaches_anchor items then Inl TypeError else Inr acc)"
proof (induction items arbitrary: acc)
  case Nil
  show ?case by simp
next
  case (Cons event items)
  show ?case by (simp add: event_raises[OF assms] Cons.IH)
qed

subsection \<open>Where the rule set holds a datetime\<close>





subsection \<open>What the emission loop and the sort do with what reaches them\<close>

lemma emit_member:
  "x \<in> set (emit event ds dur occs) \<Longrightarrow>
     \<exists>d \<in> set occs. occurrence_start x = reconcile ds d
       \<and> dt_add (reconcile ds d) dur = Inr (occurrence_end x)
       \<and> original_event_id x = id' event
       \<and> original_summary x = summary_or_default (summary event)"
proof (induction occs)
  case Nil
  then show ?case by simp
next
  case (Cons occ occs)
  then show ?case
    by (cases "dt_add (reconcile ds occ) dur") (auto simp: Let_def)
qed

lemma dt_add_sub: "dt_add s dur = Inr e \<Longrightarrow> dt_sub e s = Inr dur"
  by (auto simp: dt_add_def dt_sub_def aware_def instant_def split: if_splits option.splits)

lemma emitted_duration:
  assumes "x \<in> set (emit event dtstart_obj event_duration occurrences)"
  shows "dt_sub (occurrence_end x) (occurrence_start x) = Inr event_duration"
proof -
  from emit_member[OF assms] obtain d where
    "dt_add (reconcile dtstart_obj d) event_duration = Inr (occurrence_end x)"
    "occurrence_start x = reconcile dtstart_obj d" by blast
  then show ?thesis by (simp add: dt_add_sub)
qed

lemma sort_by_start_stable:
  assumes "sort_by_start occs = Inr out"
  shows "sorted_wrt (\<lambda>x y. dt_le (occurrence_start x) (occurrence_start y) = Inr True) out
         \<and> mset out = mset occs
         \<and> (\<forall>x \<in> set out.
               filter (\<lambda>y. dt_eq (occurrence_start y) (occurrence_start x)) out =
               filter (\<lambda>y. dt_eq (occurrence_start y) (occurrence_start x)) occs)"
proof -
  let ?key = "\<lambda>x. instant (occurrence_start x)"
  from assms have out: "out = sort_key ?key occs"
    and "\<forall>x \<in> set occs. aware (occurrence_start x) = aware (occurrence_start (hd occs))"
    unfolding sort_by_start_def by (auto simp: list_all_iff split: if_splits)
  then obtain r where same: "\<And>x. x \<in> set occs \<Longrightarrow> aware (occurrence_start x) = r"
    by blast
  have set_out: "set out = set occs" using out by simp
  have "sorted (map ?key out)" using out by (simp add: sorted_sort_key)
  then have "sorted_wrt (\<lambda>x y. ?key x \<le> ?key y) out" by (simp add: sorted_map)
  then have 1: "sorted_wrt (\<lambda>x y. dt_le (occurrence_start x) (occurrence_start y) = Inr True) out"
  proof (rule sorted_wrt_mono_rel[rotated])
    fix x y assume "x \<in> set out" "y \<in> set out" "?key x \<le> ?key y"
    then show "dt_le (occurrence_start x) (occurrence_start y) = Inr True"
      by (simp add: dt_le_def same set_out)
  qed
  have 2: "mset out = mset occs" using out by simp
  have 3: "filter (\<lambda>y. dt_eq (occurrence_start y) (occurrence_start x)) out =
           filter (\<lambda>y. dt_eq (occurrence_start y) (occurrence_start x)) occs"
    if x: "x \<in> set out" for x
  proof -
    have eq: "dt_eq (occurrence_start y) (occurrence_start x) = (?key y = ?key x)"
      if "y \<in> set occs" for y
      using that x by (simp add: dt_eq_def same set_out)
    have "filter (\<lambda>y. dt_eq (occurrence_start y) (occurrence_start x)) out =
          filter (\<lambda>y. ?key y = ?key x) out"
      by (rule filter_cong) (simp_all add: eq set_out)
    also have "\<dots> = filter (\<lambda>y. ?key y = ?key x) occs"
      unfolding out by (rule sort_key_stable)
    also have "\<dots> = filter (\<lambda>y. dt_eq (occurrence_start y) (occurrence_start x)) occs"
      by (rule filter_cong) (simp_all add: eq)
    finally show ?thesis .
  qed
  from 1 2 3 show ?thesis by blast
qed

subsection \<open>The exclusions of a value\<close>




subsection \<open>The stand-in library\<close>

lemma stub_rejects_non_strings: "rejects_non_strings stub_dateutil"
  by (simp add: rejects_non_strings_def stub_dateutil_def stub_isoparse_def stub_parse_def)


lemma two_rules_lines:
  "recurrence two_rules = Some [''RRULE:FREQ=DAILY;COUNT=2'', ''RRULE:FREQ=DAILY;COUNT=3'']"
  by (simp add: two_rules_def timed_event_def)

lemma two_rules_filter:
  "filter is_rrule_line [''RRULE:FREQ=DAILY;COUNT=2'', ''RRULE:FREQ=DAILY;COUNT=3''] =
     [''RRULE:FREQ=DAILY;COUNT=2'', ''RRULE:FREQ=DAILY;COUNT=3'']
   \<and> filter is_exdate_line [''RRULE:FREQ=DAILY;COUNT=2'', ''RRULE:FREQ=DAILY;COUNT=3''] = []"
  by code_simp

lemma exdate_marking_examples:
  "exdate_is_all_day ''EXDATE;VALUE=DATE''" "exdate_is_all_day ''EXDATE;TZID=UTC;value=DATE''"
  "\<not> exdate_is_all_day ''EXDATE''" "\<not> exdate_is_all_day ''EXDATE;TZID=Europe/Berlin''"
  "\<not> exdate_is_all_day ''EXDATE;VALUE=DATE-TIME''"
  by code_simp+

lemma sample_events_reach_anchor:
  "reaches_anchor briefing" "reaches_anchor standup" "reaches_anchor review"
  "reaches_anchor holiday" "reaches_anchor backwards" "\<not> reaches_anchor startless"
  by code_simp+

section \<open>Properties of the projection\<close>

subsection \<open>Which RRULE line is honoured\<close>

text \<open>
  C1, as the code has it. The loop over the recurrence lines assigns every line that starts
  with \<^verbatim>\<open>RRULE:\<close> to the same variable, so when an event lists several such lines
  the one selected as the rule is the last of them, not the first: the scan returns the last
  RRULE line, and the event's turn of the loop is what it would be with that line as its only
  rule (its EXDATE lines kept).
\<close>

theorem last_rrule_line_wins:
  assumes "recurrence event = Some lines" and "filter is_rrule_line lines \<noteq> []"
  shows "fst (scan_recurrence lines (None, [])) = Some (last (filter is_rrule_line lines))
         \<and> process_event lib time_min time_max event =
             process_event lib time_min time_max
               (event\<lparr>recurrence :=
                  Some (last (filter is_rrule_line lines) # filter is_exdate_line lines)\<rparr>)"
proof -
  let ?l = "last (filter is_rrule_line lines)"
  let ?ex = "filter is_exdate_line lines"
  from assms(2) have l: "is_rrule_line ?l" by (rule last_filter)
  then have nl: "\<not> is_exdate_line ?l" using exdate_not_rrule by blast
  have "filter is_rrule_line ?ex = []" by (auto simp: exdate_not_rrule)
  with l nl have sc2: "scan_recurrence (?l # ?ex) (None, []) = (Some ?l, ?ex)"
    unfolding scan_recurrence_eq by simp
  from assms(2) have sc1: "scan_recurrence lines (None, []) = (Some ?l, ?ex)"
    unfolding scan_recurrence_eq by simp
  from assms(2) have ne: "lines \<noteq> []" by auto
  have "process_event lib time_min time_max event =
        process_event lib time_min time_max (event\<lparr>recurrence := Some (?l # ?ex)\<rparr>)"
    by (rule process_event_cong[OF assms(1) _ ne _ sc1 sc2])
       (simp_all add: emit_recurrence derive_anchor_recurrence missing_start_recurrence)
  with sc1 show ?thesis by simp
qed

text \<open>
  The claim as stated fails: of the lines \<^verbatim>\<open>RRULE:FREQ=DAILY;COUNT=2\<close> and
  \<^verbatim>\<open>RRULE:FREQ=DAILY;COUNT=3\<close>, in this order, the scan selects the second.
\<close>

theorem first_rrule_line_counterexample:
  "fst (scan_recurrence [''RRULE:FREQ=DAILY;COUNT=2'', ''RRULE:FREQ=DAILY;COUNT=3''] (None, []))
     = Some ''RRULE:FREQ=DAILY;COUNT=3''
   \<and> fst (scan_recurrence [''RRULE:FREQ=DAILY;COUNT=2'', ''RRULE:FREQ=DAILY;COUNT=3''] (None, []))
     \<noteq> Some ''RRULE:FREQ=DAILY;COUNT=2''"
  by code_simp

text \<open>
  The amended statement at the event with these two lines.
\<close>

theorem last_rrule_line_wins_witness:
  "recurrence two_rules = Some [''RRULE:FREQ=DAILY;COUNT=2'', ''RRULE:FREQ=DAILY;COUNT=3'']
   \<and> filter is_rrule_line [''RRULE:FREQ=DAILY;COUNT=2'', ''RRULE:FREQ=DAILY;COUNT=3''] \<noteq> []
   \<and> fst (scan_recurrence [''RRULE:FREQ=DAILY;COUNT=2'', ''RRULE:FREQ=DAILY;COUNT=3''] (None, []))
       = Some ''RRULE:FREQ=DAILY;COUNT=3''
   \<and> process_event stub_dateutil win_min win_max two_rules =
       process_event stub_dateutil win_min win_max
         (two_rules\<lparr>recurrence := Some [''RRULE:FREQ=DAILY;COUNT=3'']\<rparr>)"
proof -
  have ne: "filter is_rrule_line [''RRULE:FREQ=DAILY;COUNT=2'', ''RRULE:FREQ=DAILY;COUNT=3''] \<noteq> []"
    using two_rules_filter by simp
  from last_rrule_line_wins[OF two_rules_lines ne, of stub_dateutil win_min win_max]
    two_rules_lines ne
  show ?thesis by (simp only: two_rules_filter last.simps list.simps if_True if_False simp_thms)
qed

subsection \<open>Occurrences lie in the window\<close>



subsection \<open>Exclusions\<close>



subsection \<open>Fixed duration\<close>



subsection \<open>Time zones of exclusions\<close>




subsection \<open>Events that cannot be projected\<close>

text \<open>
  C6 asks that a failing event be skipped and that the occurrences of the well-formed events
  be returned with no exception reaching the caller. An event without start is skipped, but
  the well-formed event is the one that fails: as soon as one item of the response has
  recurrence lines and a start, its turn of the loop raises \<^verbatim>\<open>TypeError\<close> out of the
  handler for \<^verbatim>\<open>ValueError\<close>, and so does \<^verbatim>\<open>project_recurring_events\<close>, whatever
  the other items are.
\<close>

theorem well_formed_event_raises:
  assumes "rejects_non_strings lib" and "reaches_anchor event"
  shows "process_event lib time_min time_max event = Inl TypeError
         \<and> project_recurring_events lib time_min time_max (Some (before @ event # after))
             = Inl TypeError"
proof -
  from assms(2) have "list_ex reaches_anchor (before @ event # after)"
    by (simp add: list_ex_iff)
  then show ?thesis using assms(2)
    by (simp add: project_recurring_events_def loop_raises[OF assms(1)] event_raises[OF assms(1)])
qed

text \<open>
  Scenario E of the specification: the stand-up and the event without start. The second is
  skipped; the first makes the call raise.
\<close>

theorem well_formed_event_raises_witness:
  "reaches_anchor standup
   \<and> process_event stub_dateutil win_min win_max startless = Inr []
   \<and> process_event stub_dateutil win_min win_max standup = Inl TypeError
   \<and> project_recurring_events stub_dateutil win_min win_max (Some [standup, startless])
       = Inl TypeError"
proof -
  have s: "process_event stub_dateutil win_min win_max startless = Inr []" by code_simp
  from well_formed_event_raises[OF stub_rejects_non_strings sample_events_reach_anchor(2),
      of win_min win_max "[]" "[startless]"] s sample_events_reach_anchor(2)
  show ?thesis by simp
qed

subsection \<open>Time zone of the anchor\<close>



subsection \<open>Sign of the duration\<close>



subsection \<open>The returned list\<close>



subsection \<open>Missing summaries\<close>



end
